theory Spec2Isabelle
  imports Complex_Main
begin

section \<open>Python values, exceptions and the interpreter's builtins\<close>

text \<open>
  The grading engine (\<^verbatim>\<open>essaygrader.py\<close>, \<^verbatim>\<open>grader.py\<close>) works on untyped Python
  objects: the decoded reply of the language model, the question dictionaries of a quiz and
  the answers of a student. They are modelled by one datatype of JSON-like values.
  A Python \<^verbatim>\<open>dict\<close> is an association list with distinct keys (looked up with
  \<open>map_of\<close>), Python's \<^verbatim>\<open>None\<close> is \<open>JNull\<close>. Python floats are idealised as real numbers (no rounding error,
  no overflow); the two non-finite floats that \<^verbatim>\<open>json.loads\<close> can produce have
  constructors of their own, because \<^verbatim>\<open>int()\<close> raises on them.
  Strings are ASCII text: \<^verbatim>\<open>str.lower\<close>, \<^verbatim>\<open>str.strip\<close> and the regular-expression
  classes are modelled on the ASCII range only.
\<close>

datatype json =
    JNull
  | JBool bool
  | JInt int
  | JFloat real
  | JNaN
  | JInf bool
  | JStr string
  | JList "json list"
  | JDict "(string \<times> json) list"

datatype exc_kind = ValueError | TypeError | AttributeError | OverflowError | OtherError string

datatype py_exc = Exc exc_kind string

fun exc_name :: "exc_kind \<Rightarrow> string" where
  "exc_name ValueError = ''ValueError''"
| "exc_name TypeError = ''TypeError''"
| "exc_name AttributeError = ''AttributeError''"
| "exc_name OverflowError = ''OverflowError''"
| "exc_name (OtherError n) = n"

fun kind_of :: "py_exc \<Rightarrow> exc_kind" where
  "kind_of (Exc k m) = k"

fun message_of :: "py_exc \<Rightarrow> string" where
  "message_of (Exc k m) = m"

text \<open>
  Everything outside the two modules is a field of the environment of one call of
  \<^verbatim>\<open>grade_essay\<close>: the outcome of the two embedding requests and of the generation request
  (an exception or the returned value), and the library functions \<^verbatim>\<open>json.loads\<close>
  (\<open>None\<close> when it raises), \<^verbatim>\<open>json.dumps\<close>, \<^verbatim>\<open>int()\<close> on a string (\<open>None\<close> when it
  raises \<^verbatim>\<open>ValueError\<close>) and \<^verbatim>\<open>repr()\<close>. An embedding reply that is not a list of numbers
  raises inside the same \<^verbatim>\<open>try\<close> of \<^verbatim>\<open>_compute_semantic_score\<close> as a failed request, so
  it is covered by the exception outcome. The outcome of the generation request is taken
  as it comes, whatever the prompt was.
\<close>

record env =
  embed_essay :: "py_exc + real list"
  embed_ideal :: "py_exc + real list"
  generated :: "py_exc + string"
  json_loads :: "string \<Rightarrow> json option"
  json_dumps :: "json \<Rightarrow> string"
  int_of_str :: "string \<Rightarrow> int option"
  repr :: "json \<Rightarrow> string"

fun type_name :: "json \<Rightarrow> string" where
  "type_name JNull = ''NoneType''"
| "type_name (JBool b) = ''bool''"
| "type_name (JInt n) = ''int''"
| "type_name (JFloat x) = ''float''"
| "type_name JNaN = ''float''"
| "type_name (JInf s) = ''float''"
| "type_name (JStr s) = ''str''"
| "type_name (JList l) = ''list''"
| "type_name (JDict d) = ''dict''"

fun truthy :: "json \<Rightarrow> bool" where
  "truthy JNull = False"
| "truthy (JBool b) = b"
| "truthy (JInt n) = (n \<noteq> 0)"
| "truthy (JFloat x) = (x \<noteq> 0)"
| "truthy JNaN = True"
| "truthy (JInf s) = True"
| "truthy (JStr s) = (s \<noteq> [])"
| "truthy (JList l) = (l \<noteq> [])"
| "truthy (JDict d) = (d \<noteq> [])"

fun is_dict :: "json \<Rightarrow> bool" where
  "is_dict (JDict d) = True"
| "is_dict v = False"

fun is_str :: "json \<Rightarrow> bool" where
  "is_str (JStr s) = True"
| "is_str v = False"

fun the_str :: "json \<Rightarrow> string" where
  "the_str (JStr s) = s"
| "the_str v = []"

text \<open>\<^verbatim>\<open>d.get(k, default)\<close>: \<^verbatim>\<open>AttributeError\<close> when \<open>d\<close> is not a dictionary.\<close>

definition no_get :: "json \<Rightarrow> py_exc" where
  "no_get v = Exc AttributeError
     ([CHR 0x27] @ type_name v @ [CHR 0x27] @ '' object has no attribute '' @ [CHR 0x27] @ ''get'' @ [CHR 0x27])"

fun dget_default :: "(string \<times> json) list \<Rightarrow> string \<Rightarrow> json \<Rightarrow> json" where
  "dget_default d k dflt = (case map_of d k of None \<Rightarrow> dflt | Some v \<Rightarrow> v)"

fun get_default :: "json \<Rightarrow> string \<Rightarrow> json \<Rightarrow> py_exc + json" where
  "get_default (JDict d) k dflt = Inr (dget_default d k dflt)"
| "get_default v k dflt = Inl (no_get v)"

definition get :: "json \<Rightarrow> string \<Rightarrow> py_exc + json" where
  "get v k = get_default v k JNull"

text \<open>\<^verbatim>\<open>d.get(k)\<close> on a value known to be a dictionary.\<close>

definition dget :: "(string \<times> json) list \<Rightarrow> string \<Rightarrow> json" where
  "dget d k = dget_default d k JNull"

text \<open>\<^verbatim>\<open>int(x)\<close>: truncation towards zero on a float.\<close>

definition trunc :: "real \<Rightarrow> int" where
  "trunc x = (if 0 \<le> x then \<lfloor>x\<rfloor> else \<lceil>x\<rceil>)"

definition int_type_error :: "json \<Rightarrow> py_exc" where
  "int_type_error v = Exc TypeError
     (''int() argument must be a string, a bytes-like object or a real number, not ''
       @ [CHR 0x27] @ type_name v @ [CHR 0x27])"

fun py_int :: "env \<Rightarrow> json \<Rightarrow> py_exc + int" where
  "py_int E (JInt n) = Inr n"
| "py_int E (JBool b) = Inr (if b then 1 else 0)"
| "py_int E (JFloat x) = Inr (trunc x)"
| "py_int E JNaN = Inl (Exc ValueError ''cannot convert float NaN to integer'')"
| "py_int E (JInf s) = Inl (Exc OverflowError ''cannot convert float infinity to integer'')"
| "py_int E (JStr s) =
     (case int_of_str E s of
        Some n \<Rightarrow> Inr n
      | None \<Rightarrow> Inl (Exc ValueError (''invalid literal for int() with base 10: '' @ repr E (JStr s))))"
| "py_int E v = Inl (int_type_error v)"

text \<open>\<^verbatim>\<open>str(x)\<close>: the text itself for a string, the interpreter's rendering otherwise.\<close>

fun py_str :: "env \<Rightarrow> json \<Rightarrow> string" where
  "py_str E (JStr s) = s"
| "py_str E JNull = ''None''"
| "py_str E (JBool b) = (if b then ''True'' else ''False'')"
| "py_str E v = repr E v"

text \<open>\<^verbatim>\<open>round(x)\<close> of Python 3: to the nearest integer, ties to the even one.\<close>

definition py_round :: "real \<Rightarrow> int" where
  "py_round x =
     (let f = \<lfloor>x\<rfloor>; d = x - of_int f
      in if d < 1 / 2 then f else if 1 / 2 < d then f + 1 else if even f then f else f + 1)"

section \<open>Strings\<close>

definition is_space :: "char \<Rightarrow> bool" where
  "is_space c = (let n = (of_char c :: nat) in (9 \<le> n \<and> n \<le> 13) \<or> (28 \<le> n \<and> n \<le> 32))"

definition strip :: "string \<Rightarrow> string" where
  "strip s = rev (dropWhile is_space (rev (dropWhile is_space s)))"

definition lower_char :: "char \<Rightarrow> char" where
  "lower_char c = (let n = (of_char c :: nat) in if 65 \<le> n \<and> n \<le> 90 then char_of (n + 32) else c)"

definition lower :: "string \<Rightarrow> string" where
  "lower s = map lower_char s"

text \<open>The class \<^verbatim>\<open>[a-z0-9]\<close> and the word characters \<^verbatim>\<open>\w\<close>.\<close>

definition is_token_char :: "char \<Rightarrow> bool" where
  "is_token_char c =
     (let n = (of_char c :: nat) in (97 \<le> n \<and> n \<le> 122) \<or> (48 \<le> n \<and> n \<le> 57))"

definition is_word_char :: "char \<Rightarrow> bool" where
  "is_word_char c =
     (let n = (of_char c :: nat)
      in (97 \<le> n \<and> n \<le> 122) \<or> (65 \<le> n \<and> n \<le> 90) \<or> (48 \<le> n \<and> n \<le> 57) \<or> n = 95)"

definition newline :: char where
  "newline = CHR 0x0A"

section \<open>CoverageAnalyzer: \<^verbatim>\<open>_simple_requirement_match\<close> and \<^verbatim>\<open>_heuristic_coverage\<close>\<close>

text \<open>
  \<^verbatim>\<open>re.split(r"[^a-z0-9]+", s)\<close>: the pieces between maximal runs of separator characters,
  with an empty piece where the text starts or ends with a separator. \<open>cur\<close> is the piece
  being read (reversed), \<open>insep\<close> says that the previous character was a separator.
\<close>

fun re_split :: "string \<Rightarrow> bool \<Rightarrow> string \<Rightarrow> string list" where
  "re_split cur insep [] = [rev cur]"
| "re_split cur insep (c # cs) =
     (if is_token_char c then re_split (c # cur) False cs
      else if insep then re_split cur True cs
      else rev cur # re_split [] True cs)"

definition tokens_of :: "string \<Rightarrow> string list" where
  "tokens_of requirement = filter (\<lambda>t. 2 < length t) (re_split [] False (lower requirement))"

text \<open>
  \<^verbatim>\<open>\b\<close> holds between two positions when exactly one of the neighbouring characters is a
  word character (the edge of the text counts as a non-word character).
\<close>

fun is_word_opt :: "char option \<Rightarrow> bool" where
  "is_word_opt None = False"
| "is_word_opt (Some c) = is_word_char c"

definition at_boundary :: "char option \<Rightarrow> char option \<Rightarrow> bool" where
  "at_boundary p n = (is_word_opt p \<noteq> is_word_opt n)"

fun head_opt :: "string \<Rightarrow> char option" where
  "head_opt [] = None"
| "head_opt (c # cs) = Some c"

fun last_opt :: "char option \<Rightarrow> string \<Rightarrow> char option" where
  "last_opt p [] = p"
| "last_opt p (c # cs) = last_opt (Some c) cs"

text \<open>\<^verbatim>\<open>\bt\b\<close> matched at the start of \<open>s\<close>, where \<open>prev\<close> is the character before \<open>s\<close>.\<close>

definition word_here :: "string \<Rightarrow> char option \<Rightarrow> string \<Rightarrow> bool" where
  "word_here t prev s =
     (at_boundary prev (head_opt s) \<and> take (length t) s = t
      \<and> at_boundary (last_opt prev t) (head_opt (drop (length t) s)))"

text \<open>\<^verbatim>\<open>re.search(rf"\b{re.escape(t)}\b", essay_lc)\<close> finds a match.\<close>

fun has_word :: "string \<Rightarrow> char option \<Rightarrow> string \<Rightarrow> bool" where
  "has_word t prev [] = word_here t prev []"
| "has_word t prev (c # cs) = (word_here t prev (c # cs) \<or> has_word t (Some c) cs)"

text \<open>
  The evidence pattern \<^verbatim>\<open>(.{0,40}\b t \b.+?\.)\<close> anchored at the start of \<open>s\<close> with
  exactly \<open>k\<close> leading characters: \<open>k\<close> characters other than a newline, the token between
  word boundaries, one character other than a newline, then as few such characters as
  possible up to the next full stop. The result is the matched text.
\<close>

definition snippet_with :: "string \<Rightarrow> char option \<Rightarrow> string \<Rightarrow> nat \<Rightarrow> string option" where
  "snippet_with t prev s k =
     (let pre = take k s; rest = drop k s; after = drop (length t) rest
      in if length pre = k \<and> newline \<notin> set pre \<and> word_here t (last_opt prev pre) rest
         then (case after of
                 [] \<Rightarrow> None
               | c # cs \<Rightarrow>
                   if c = newline then None
                   else (let mid = takeWhile (\<lambda>x. x \<noteq> CHR ''.'' \<and> x \<noteq> newline) cs
                         in if head_opt (drop (length mid) cs) = Some CHR ''.''
                            then Some (pre @ t @ [c] @ mid @ ''.'')
                            else None))
         else None)"

text \<open>The greedy \<^verbatim>\<open>.{0,40}\<close>: the longest prefix first, then shorter ones.\<close>

fun snippet_upto :: "string \<Rightarrow> char option \<Rightarrow> string \<Rightarrow> nat \<Rightarrow> string option" where
  "snippet_upto t prev s 0 = snippet_with t prev s 0"
| "snippet_upto t prev s (Suc k) =
     (case snippet_with t prev s (Suc k) of
        Some m \<Rightarrow> Some m
      | None \<Rightarrow> snippet_upto t prev s k)"

text \<open>\<^verbatim>\<open>re.search\<close> of the evidence pattern: the leftmost starting position that matches.\<close>

fun snippet_search :: "string \<Rightarrow> char option \<Rightarrow> string \<Rightarrow> string option" where
  "snippet_search t prev [] = snippet_upto t prev [] 40"
| "snippet_search t prev (c # cs) =
     (case snippet_upto t prev (c # cs) 40 of
        Some m \<Rightarrow> Some m
      | None \<Rightarrow> snippet_search t (Some c) cs)"

text \<open>The loop over the tokens that stops at the first token with a snippet.\<close>

fun first_evidence :: "string \<Rightarrow> string list \<Rightarrow> string" where
  "first_evidence essay_lc [] = []"
| "first_evidence essay_lc (t # ts) =
     (case snippet_search t None essay_lc of
        Some m \<Rightarrow> ''...'' @ strip m
      | None \<Rightarrow> first_evidence essay_lc ts)"

definition count_matches :: "string \<Rightarrow> string list \<Rightarrow> nat" where
  "count_matches essay_lc tokens = length (filter (\<lambda>t. has_word t None essay_lc) tokens)"

definition simple_requirement_match :: "string \<Rightarrow> string \<Rightarrow> bool \<times> string" where
  "simple_requirement_match essay_lc requirement =
     (let tokens = tokens_of requirement
      in if tokens = [] then (False, [])
         else
           (let matches = count_matches essay_lc tokens;
                ratio = real matches / real (max 1 (length tokens));
                addressed = (1 / 2 \<le> ratio \<or> 3 \<le> matches);
                evidence = (if addressed then first_evidence essay_lc tokens else [])
            in (addressed, evidence)))"

definition coverage_item :: "string \<Rightarrow> bool \<Rightarrow> string \<Rightarrow> json" where
  "coverage_item r a e =
     JDict [(''requirement'', JStr r), (''addressed'', JBool a), (''evidence'', JStr e)]"

fun coverage_loop :: "string \<Rightarrow> string list \<Rightarrow> json list" where
  "coverage_loop essay_lc [] = []"
| "coverage_loop essay_lc (req # reqs) =
     (let req_str = strip req
      in if req_str = [] then coverage_loop essay_lc reqs
         else (case simple_requirement_match essay_lc req_str of
                 (addressed, evidence) \<Rightarrow>
                   coverage_item req_str addressed evidence # coverage_loop essay_lc reqs))"

definition heuristic_coverage :: "string \<Rightarrow> string list \<Rightarrow> json list" where
  "heuristic_coverage essay requirements = coverage_loop (lower essay) requirements"

section \<open>Coverage-to-grade mapping: \<^verbatim>\<open>_coverage_to_grade\<close>\<close>

text \<open>\<^verbatim>\<open>sum(1 for c in coverage if c.get("addressed"))\<close>; \<^verbatim>\<open>c.get\<close> raises on a non-dictionary.\<close>

fun count_addressed :: "json list \<Rightarrow> py_exc + nat" where
  "count_addressed [] = Inr 0"
| "count_addressed (c # cs) =
     (case get c ''addressed'' of
        Inl e \<Rightarrow> Inl e
      | Inr a \<Rightarrow>
          (case count_addressed cs of
             Inl e \<Rightarrow> Inl e
           | Inr n \<Rightarrow> Inr (if truthy a then Suc n else n)))"

definition coverage_to_grade :: "json list \<Rightarrow> int \<Rightarrow> py_exc + int" where
  "coverage_to_grade cov mp =
     (if cov = [] then Inr 0
      else (case count_addressed cov of
              Inl e \<Rightarrow> Inl e
            | Inr addressed \<Rightarrow>
                (let ratio = real addressed / real (length cov)
                 in Inr (py_round (min (of_int mp) (max 0 (ratio * of_int mp)))))))"

section \<open>DeductionReconciler: \<^verbatim>\<open>_synthesize_deductions\<close> and the normalisation loop\<close>

text \<open>
  A deduction is a dictionary with the keys \<^verbatim>\<open>reason\<close> and \<^verbatim>\<open>points\<close> and three optional
  keys; \<open>None\<close> is an absent key, \<open>Some JNull\<close> a key that holds \<^verbatim>\<open>None\<close>.
\<close>

record deduction =
  reason :: string
  points :: int
  requirement :: "json option"
  evidence :: "json option"
  category :: "json option"

definition sum_points :: "deduction list \<Rightarrow> int" where
  "sum_points ds = sum_list (map points ds)"

text \<open>\<^verbatim>\<open>[c for c in (coverage or []) if not c.get("addressed")]\<close>, as the dictionaries' contents.\<close>

fun missed_items :: "json list \<Rightarrow> py_exc + (string \<times> json) list list" where
  "missed_items [] = Inr []"
| "missed_items (JDict d # cs) =
     (case missed_items cs of
        Inl e \<Rightarrow> Inl e
      | Inr ms \<Rightarrow> Inr (if truthy (dget d ''addressed'') then ms else d # ms))"
| "missed_items (c # cs) = (case get c ''addressed'' of Inl e \<Rightarrow> Inl e | Inr a \<Rightarrow> missed_items cs)"

definition missing_requirement :: "env \<Rightarrow> (string \<times> json) list \<Rightarrow> int \<Rightarrow> deduction" where
  "missing_requirement E c pts =
     \<lparr> reason = ''Missing requirement: ''
          @ py_str E (dget_default c ''requirement'' (JStr [])),
       points = pts,
       requirement = Some (dget c ''requirement''),
       evidence = Some (dget c ''evidence''),
       category = Some (JStr ''missing_requirement'') \<rparr>"

text \<open>\<^verbatim>\<open>for idx, c in enumerate(missed)\<close>.\<close>

fun missing_loop :: "env \<Rightarrow> int \<Rightarrow> int \<Rightarrow> nat \<Rightarrow> (string \<times> json) list list \<Rightarrow> deduction list" where
  "missing_loop E base remainder idx [] = []"
| "missing_loop E base remainder idx (c # cs) =
     missing_requirement E c (base + (if int idx < remainder then 1 else 0))
       # missing_loop E base remainder (Suc idx) cs"

definition partial_coverage :: "int \<Rightarrow> deduction" where
  "partial_coverage pts =
     \<lparr> reason = ''Partial coverage/quality issues (brevity, clarity, depth, or minor inaccuracies)'',
       points = pts,
       requirement = None,
       evidence = None,
       category = Some (JStr ''partial_coverage'') \<rparr>"

definition synthesize_deductions :: "env \<Rightarrow> int \<Rightarrow> int \<Rightarrow> json list \<Rightarrow> py_exc + deduction list \<times> int" where
  "synthesize_deductions E g mp cov =
     (let missing_points = max 0 (mp - g)
      in if missing_points = 0 then Inr ([], 0)
         else (case missed_items cov of
                 Inl e \<Rightarrow> Inl e
               | Inr missed \<Rightarrow>
                   if missed \<noteq> [] then
                     (let n = int (length missed);
                          base = missing_points div n;
                          remainder = missing_points - base * n
                      in Inr (missing_loop E base remainder 0 missed, missing_points))
                   else Inr ([partial_coverage missing_points], missing_points)))"

text \<open>\<^verbatim>\<open>a or b\<close>.\<close>

definition py_or :: "json \<Rightarrow> json \<Rightarrow> json" where
  "py_or a b = (if truthy a then a else b)"

definition pass_through :: "json \<Rightarrow> json option" where
  "pass_through v = (if v \<noteq> JNull then Some v else None)"

fun normalize_deductions :: "env \<Rightarrow> json list \<Rightarrow> deduction list" where
  "normalize_deductions E [] = []"
| "normalize_deductions E (JDict d # ds) =
     (let pts = max 0 (case py_int E (dget d ''points'') of Inl e \<Rightarrow> 0 | Inr n \<Rightarrow> n)
      in \<lparr> reason = py_str E (py_or (dget d ''reason'') (py_or (dget d ''note'') (JStr ''Deduction''))),
           points = pts,
           requirement = pass_through (dget d ''requirement''),
           evidence = pass_through (dget d ''evidence''),
           category = pass_through (dget d ''category'') \<rparr>
         # normalize_deductions E ds)"
| "normalize_deductions E (v # ds) = normalize_deductions E ds"

definition reconciliation :: "env \<Rightarrow> int \<Rightarrow> int \<Rightarrow> deduction" where
  "reconciliation E total_ded expected =
     \<lparr> reason = ''Reconciliation: deductions ('' @ py_str E (JInt total_ded)
          @ '') did not equal max_points-grade ('' @ py_str E (JInt expected)
          @ ''); keeping grade and recording actual difference.'',
       points = max 0 (expected - total_ded),
       requirement = None,
       evidence = None,
       category = Some (JStr ''reconciliation'') \<rparr>"

definition reconcile :: "env \<Rightarrow> int \<Rightarrow> int \<Rightarrow> json list \<Rightarrow> deduction list \<times> int" where
  "reconcile E g mp llm_deductions =
     (let normalized = normalize_deductions E llm_deductions;
          total_ded = sum_points normalized;
          expected = mp - g
      in if total_ded \<noteq> expected
         then (normalized @ [reconciliation E total_ded expected], expected)
         else (normalized, total_ded))"

section \<open>SimilarityEstimator: \<^verbatim>\<open>_cosine_similarity\<close> and \<^verbatim>\<open>_compute_semantic_score\<close>\<close>

definition dot_product :: "real list \<Rightarrow> real list \<Rightarrow> real" where
  "dot_product v1 v2 = sum_list (map (\<lambda>(a, b). a * b) (zip v1 v2))"

definition magnitude :: "real list \<Rightarrow> real" where
  "magnitude v = sqrt (sum_list (map (\<lambda>a. a * a) v))"

definition cosine_similarity :: "real list \<Rightarrow> real list \<Rightarrow> real" where
  "cosine_similarity v1 v2 =
     (if v1 = [] \<or> v2 = [] \<or> length v1 \<noteq> length v2 then 0
      else if magnitude v1 = 0 \<or> magnitude v2 = 0 then 0
      else dot_product v1 v2 / (magnitude v1 * magnitude v2))"

definition compute_semantic_score :: "env \<Rightarrow> real option" where
  "compute_semantic_score E =
     (case embed_essay E of
        Inl e \<Rightarrow> None
      | Inr vec_essay \<Rightarrow>
          (case embed_ideal E of
             Inl e \<Rightarrow> None
           | Inr vec_ideal \<Rightarrow>
               if vec_essay = [] \<or> vec_ideal = [] then None
               else Some (cosine_similarity vec_essay vec_ideal)))"

section \<open>ResponseParser: \<^verbatim>\<open>_extract_first_json_object\<close> and \<^verbatim>\<open>_parse_llm_json\<close>\<close>

text \<open>The loop from the first opening brace; \<open>acc\<close> is the text read so far, reversed.\<close>

fun brace_scan :: "int \<Rightarrow> string \<Rightarrow> string \<Rightarrow> string option" where
  "brace_scan depth acc [] = None"
| "brace_scan depth acc (ch # cs) =
     (if ch = CHR ''{'' then brace_scan (depth + 1) (ch # acc) cs
      else if ch = CHR ''}'' then
        (if depth - 1 = 0 then Some (rev (ch # acc)) else brace_scan (depth - 1) (ch # acc) cs)
      else brace_scan depth (ch # acc) cs)"

definition extract_first_json_object :: "string \<Rightarrow> string option" where
  "extract_first_json_object text =
     (let rest = dropWhile (\<lambda>c. c \<noteq> CHR ''{'') text
      in if rest = [] then None else brace_scan 0 [] rest)"

text \<open>The result \<open>JNull\<close> is Python's \<^verbatim>\<open>None\<close>, also when the text is the JSON \<^verbatim>\<open>null\<close>.\<close>

definition parse_llm_json :: "env \<Rightarrow> string \<Rightarrow> json" where
  "parse_llm_json E text =
     (case json_loads E text of
        Some v \<Rightarrow> v
      | None \<Rightarrow>
          (case extract_first_json_object text of
             None \<Rightarrow> JNull
           | Some m \<Rightarrow>
               if m \<noteq> [] then (case json_loads E m of Some v \<Rightarrow> v | None \<Rightarrow> JNull)
               else JNull))"

section \<open>GradingOrchestrator: \<^verbatim>\<open>grade_essay\<close>\<close>

record grade_result =
  grade :: int
  reasons :: "string list"
  coverage :: "json list"
  backend :: string
  model_used :: "string option"
  raw_response :: "string option"
  semantic_similarity :: "real option"
  domain_analysis :: json
  max_points :: int
  deductions :: "deduction list"
  total_deductions :: int

text \<open>
  Iterating over a Python value: a string yields its characters, a dictionary its keys, and
  a value that is no container raises \<^verbatim>\<open>TypeError\<close>.
\<close>

fun iter_items :: "json \<Rightarrow> py_exc + json list" where
  "iter_items (JList l) = Inr l"
| "iter_items (JStr s) = Inr (map (\<lambda>c. JStr [c]) s)"
| "iter_items (JDict d) = Inr (map (\<lambda>kv. JStr (fst kv)) d)"
| "iter_items v =
     Inl (Exc TypeError ([CHR 0x27] @ type_name v @ [CHR 0x27] @ '' object is not iterable''))"

text \<open>\<^verbatim>\<open>list(map(str, reasons))\<close>.\<close>

definition reasons_list :: "env \<Rightarrow> json \<Rightarrow> py_exc + string list" where
  "reasons_list E rs = (case iter_items rs of Inl e \<Rightarrow> Inl e | Inr l \<Rightarrow> Inr (map (py_str E) l))"

text \<open>The branch \<^verbatim>\<open>if parsed is None\<close>: heuristic grade, the model's text kept.\<close>

definition unparsed_result ::
  "env \<Rightarrow> string \<Rightarrow> string \<Rightarrow> string list \<Rightarrow> int \<Rightarrow> real option \<Rightarrow> string \<Rightarrow> py_exc + grade_result" where
  "unparsed_result E model essay requirements mp similarity_score response_text =
     (let cov = heuristic_coverage essay requirements
      in case coverage_to_grade cov mp of
           Inl e \<Rightarrow> Inl e
         | Inr g \<Rightarrow>
             (case synthesize_deductions E g mp cov of
                Inl e \<Rightarrow> Inl e
              | Inr (ds, total_ded) \<Rightarrow>
                  Inr \<lparr> grade = g,
                        reasons =
                          [''LLM returned non-JSON. Extracted text provided in raw_response; using heuristic coverage for structure.'',
                           ''Consider adjusting the prompt or model to improve JSON adherence.''],
                        coverage = cov,
                        backend = ''ollama'',
                        model_used = Some model,
                        raw_response = Some response_text,
                        semantic_similarity = similarity_score,
                        domain_analysis = JNull,
                        max_points = mp,
                        deductions = ds,
                        total_deductions = total_ded \<rparr>))"

text \<open>The rest of the \<^verbatim>\<open>try\<close> body, for a reply that was decoded to \<open>parsed\<close>.\<close>

fun parsed_result ::
  "env \<Rightarrow> string \<Rightarrow> string \<Rightarrow> string list \<Rightarrow> int \<Rightarrow> real option \<Rightarrow> json \<Rightarrow> py_exc + grade_result" where
  "parsed_result E model essay requirements mp similarity_score (JDict d) =
     (case py_int E (dget_default d ''grade'' (JInt 0)) of
        Inl e \<Rightarrow> Inl e
      | Inr gi \<Rightarrow>
          (let g = max 0 (min mp gi);
               rs = py_or (dget d ''reasons'') (JList []);
               cov0 = py_or (dget d ''coverage'') (JList []);
               llm_deductions = dget d ''deductions'';
               cov = (case cov0 of
                        JList l \<Rightarrow> if l = [] then heuristic_coverage essay requirements else l
                      | _ \<Rightarrow> heuristic_coverage essay requirements)
           in case (case llm_deductions of
                      JList l \<Rightarrow>
                        if l \<noteq> [] then Inr (reconcile E g mp l)
                        else synthesize_deductions E g mp cov
                    | _ \<Rightarrow> synthesize_deductions E g mp cov) of
                Inl e \<Rightarrow> Inl e
              | Inr (ds, total_ded) \<Rightarrow>
                  (case reasons_list E rs of
                     Inl e \<Rightarrow> Inl e
                   | Inr rl \<Rightarrow>
                       Inr \<lparr> grade = g,
                             reasons = (if rl \<noteq> [] then rl else [''Model did not provide reasons.'']),
                             coverage = cov,
                             backend = ''ollama'',
                             model_used = Some model,
                             raw_response = Some (json_dumps E (JDict d)),
                             semantic_similarity = similarity_score,
                             domain_analysis = dget d ''domain_analysis'',
                             max_points = mp,
                             deductions = ds,
                             total_deductions = total_ded \<rparr>)))"
| "parsed_result E model essay requirements mp similarity_score v = Inl (no_get v)"

text \<open>The body of the \<^verbatim>\<open>try\<close> statement.\<close>

definition model_path :: "env \<Rightarrow> string \<Rightarrow> string \<Rightarrow> string list \<Rightarrow> int \<Rightarrow> py_exc + grade_result" where
  "model_path E model essay requirements mp =
     (let similarity_score = compute_semantic_score E
      in case generated E of
           Inl e \<Rightarrow> Inl e
         | Inr response_text \<Rightarrow>
             (let parsed = parse_llm_json E response_text
              in if parsed = JNull
                 then unparsed_result E model essay requirements mp similarity_score response_text
                 else parsed_result E model essay requirements mp similarity_score parsed))"

text \<open>The \<^verbatim>\<open>except Exception as e\<close> handler; an exception raised in it leaves \<^verbatim>\<open>grade_essay\<close>.\<close>

definition fallback_result :: "env \<Rightarrow> string \<Rightarrow> string list \<Rightarrow> int \<Rightarrow> py_exc \<Rightarrow> py_exc + grade_result" where
  "fallback_result E essay requirements mp e =
     (let cov = heuristic_coverage essay requirements
      in case coverage_to_grade cov mp of
           Inl e' \<Rightarrow> Inl e'
         | Inr g \<Rightarrow>
             (case synthesize_deductions E g mp cov of
                Inl e' \<Rightarrow> Inl e'
              | Inr (ds, total_ded) \<Rightarrow>
                  Inr \<lparr> grade = g,
                        reasons =
                          [''Local model unavailable or call failed; applied heuristic grading.'',
                           ''Reason: '' @ exc_name (kind_of e) @ '': '' @ message_of e],
                        coverage = cov,
                        backend = ''fallback'',
                        model_used = None,
                        raw_response = None,
                        semantic_similarity = None,
                        domain_analysis = JNull,
                        max_points = mp,
                        deductions = ds,
                        total_deductions = total_ded \<rparr>))"

text \<open>
  \<^verbatim>\<open>grade_essay(essay, requirements, model=..., max_points=...)\<close>. The two arguments that
  the function validates are arbitrary Python values; \<open>model\<close> is the model name after the
  defaults were resolved.
\<close>

definition grade_essay :: "env \<Rightarrow> string \<Rightarrow> json \<Rightarrow> json \<Rightarrow> int \<Rightarrow> py_exc + grade_result" where
  "grade_essay E model essay requirements mp =
     (if \<not> is_str essay \<or> strip (the_str essay) = []
      then Inl (Exc ValueError ''essay must be a non-empty string'')
      else (case requirements of
              JList l \<Rightarrow>
                if list_all is_str l then
                  (case model_path E model (the_str essay) (map the_str l) mp of
                     Inr r \<Rightarrow> Inr r
                   | Inl e \<Rightarrow> fallback_result E (the_str essay) (map the_str l) mp e)
                else Inl (Exc ValueError ''requirements must be a list of strings'')
            | _ \<Rightarrow> Inl (Exc ValueError ''requirements must be a list of strings'')))"

section \<open>QuizScoringAggregator: \<^verbatim>\<open>grade_quiz\<close>\<close>

definition no_strip :: "json \<Rightarrow> py_exc" where
  "no_strip v = Exc AttributeError
     ([CHR 0x27] @ type_name v @ [CHR 0x27] @ '' object has no attribute '' @ [CHR 0x27] @ ''strip'' @ [CHR 0x27])"

definition question_type :: "json \<Rightarrow> py_exc + string" where
  "question_type q =
     (case get q ''type'' of
        Inl e \<Rightarrow> Inl e
      | Inr tv \<Rightarrow>
          (case py_or tv (JStr ''mc'') of
             JStr s \<Rightarrow> Inr (if lower (strip s) = ''essay'' then ''essay'' else ''mc'')
           | v \<Rightarrow> Inl (no_strip v)))"

definition points_for_mc :: "env \<Rightarrow> (string \<times> json) list \<Rightarrow> int" where
  "points_for_mc E q = (case py_int E (dget_default q ''points'' (JInt 1)) of Inl e \<Rightarrow> 1 | Inr n \<Rightarrow> n)"

definition points_for_essay :: "env \<Rightarrow> (string \<times> json) list \<Rightarrow> int" where
  "points_for_essay E q =
     (case py_int E (dget_default q ''max_points'' (dget_default q ''points'' (JInt 10))) of
        Inl e \<Rightarrow> 10
      | Inr n \<Rightarrow> max 1 n)"

datatype details =
    EssayDetails (prompt: json) (essay_requirements: json) (essaygrader: grade_result)
  | McDetails (selected_index: json) (correct_index: json) (options: json) (question_text: json)

record per_question =
  qtype :: string
  awarded :: int
  max_pts :: int
  correct :: "bool option"
  details :: details

record quiz_score =
  score :: int
  total :: int
  percent :: real
  per_question :: "per_question list"

text \<open>\<^verbatim>\<open>isinstance(a, int)\<close>: \<^verbatim>\<open>bool\<close> is a subclass of \<^verbatim>\<open>int\<close>.\<close>

fun is_int_instance :: "json \<Rightarrow> bool" where
  "is_int_instance (JInt n) = True"
| "is_int_instance (JBool b) = True"
| "is_int_instance v = False"

text \<open>The numeric value of a finite number; \<^verbatim>\<open>==\<close> between an integer and any value.\<close>

fun num_value :: "json \<Rightarrow> real option" where
  "num_value (JInt n) = Some (of_int n)"
| "num_value (JBool b) = Some (if b then 1 else 0)"
| "num_value (JFloat x) = Some x"
| "num_value v = None"

definition int_equals :: "json \<Rightarrow> json \<Rightarrow> bool" where
  "int_equals ai ci = (num_value ai \<noteq> None \<and> num_value ai = num_value ci)"

text \<open>The \<^verbatim>\<open>else\<close> branch of the loop body: a multiple-choice question.\<close>

definition mc_question :: "env \<Rightarrow> (string \<times> json) list \<Rightarrow> json \<Rightarrow> per_question" where
  "mc_question E q a =
     (let points_max = points_for_mc E q;
          ci = dget q ''correct_index'';
          ai = (if is_int_instance a then a else JNull);
          is_correct = (ai \<noteq> JNull \<and> int_equals ai ci)
      in \<lparr> qtype = ''mc'',
           awarded = (if is_correct then points_max else 0),
           max_pts = points_max,
           correct = Some is_correct,
           details = McDetails ai ci (dget_default q ''options'' (JList [])) (dget q ''text'') \<rparr>)"

text \<open>The \<^verbatim>\<open>if qtype == 'essay'\<close> branch: \<^verbatim>\<open>grade_essay\<close> is called with \<^verbatim>\<open>max_points=100\<close>.\<close>

definition essay_question :: "env \<Rightarrow> string \<Rightarrow> (string \<times> json) list \<Rightarrow> json \<Rightarrow> py_exc + per_question" where
  "essay_question E model q a =
     (let points_max = points_for_essay E q;
          rq0 = py_or (dget q ''requirements'') (JList []);
          rq = (case rq0 of JList l \<Rightarrow> rq0 | _ \<Rightarrow> JList []);
          essay_text = (if is_str a then a else py_or a (JStr []))
      in case grade_essay E model essay_text rq 100 of
           Inl e \<Rightarrow> Inl e
         | Inr eg \<Rightarrow>
             (let aw = py_round (real_of_int (grade eg) / 100 * of_int points_max)
              in Inr \<lparr> qtype = ''essay'',
                      awarded = max 0 (min points_max aw),
                      max_pts = points_max,
                      correct = None,
                      details = EssayDetails (dget q ''text'') rq eg \<rparr>))"

definition grade_question :: "env \<Rightarrow> string \<Rightarrow> json \<Rightarrow> json \<Rightarrow> py_exc + per_question" where
  "grade_question E model q a =
     (case question_type q of
        Inl e \<Rightarrow> Inl e
      | Inr t \<Rightarrow>
          (case q of
             JDict d \<Rightarrow> if t = ''essay'' then essay_question E model d a else Inr (mc_question E d a)
           | v \<Rightarrow> Inl (no_get v)))"

text \<open>
  \<^verbatim>\<open>for i, q in enumerate(questions)\<close>; the call for question \<open>i\<close> runs in the environment
  \<open>envs i\<close>, and \<^verbatim>\<open>answers[i] if i < len(answers) else None\<close> is the aligned answer.
\<close>

definition answer_at :: "json list \<Rightarrow> nat \<Rightarrow> json" where
  "answer_at answers i = (if i < length answers then answers ! i else JNull)"

fun quiz_loop :: "(nat \<Rightarrow> env) \<Rightarrow> string \<Rightarrow> json list \<Rightarrow> nat \<Rightarrow> json list \<Rightarrow> py_exc + per_question list" where
  "quiz_loop envs model answers i [] = Inr []"
| "quiz_loop envs model answers i (q # qs) =
     (case grade_question (envs i) model q (answer_at answers i) of
        Inl e \<Rightarrow> Inl e
      | Inr pq \<Rightarrow>
          (case quiz_loop envs model answers (Suc i) qs of
             Inl e \<Rightarrow> Inl e
           | Inr pqs \<Rightarrow> Inr (pq # pqs)))"

definition grade_quiz :: "(nat \<Rightarrow> env) \<Rightarrow> string \<Rightarrow> json \<Rightarrow> json list \<Rightarrow> py_exc + quiz_score" where
  "grade_quiz envs model quiz answers =
     (case get_default quiz ''questions'' (JList []) of
        Inl e \<Rightarrow> Inl e
      | Inr qv \<Rightarrow>
          (case iter_items qv of
             Inl e \<Rightarrow> Inl e
           | Inr questions \<Rightarrow>
               (case quiz_loop envs model answers 0 questions of
                  Inl e \<Rightarrow> Inl e
                | Inr pqs \<Rightarrow>
                    (let score_points = sum_list (map awarded pqs);
                         total_points = sum_list (map max_pts pqs)
                     in Inr \<lparr> score = score_points,
                             total = total_points,
                             percent =
                               (if total_points \<noteq> 0
                                then of_int (py_round (of_int score_points / of_int total_points * 100 * 100)) / 100
                                else 0),
                             per_question = pqs \<rparr>))))"

section \<open>Notions of the specification\<close>

text \<open>
  The \<^verbatim>\<open>addressed\<close> flag of a coverage item, read the way Python tests it, and
  the coverage items that are not addressed, in their original order.
\<close>

fun addressed_of :: "json \<Rightarrow> bool" where
  "addressed_of (JDict d) = truthy (dget d ''addressed'')"
| "addressed_of v = False"

fun the_dict :: "json \<Rightarrow> (string \<times> json) list" where
  "the_dict (JDict d) = d"
| "the_dict v = []"

definition missed_of :: "json list \<Rightarrow> (string \<times> json) list list" where
  "missed_of cov = map the_dict (filter (\<lambda>c. \<not> addressed_of c) cov)"








text \<open>
  The arguments that \<^verbatim>\<open>grade_essay\<close> accepts: a string that is not blank and a list of
  strings; and the requirement strings of an accepted list.
\<close>

definition valid_input :: "json \<Rightarrow> json \<Rightarrow> bool" where
  "valid_input essay requirements =
     (is_str essay \<and> strip (the_str essay) \<noteq> [] \<and>
      (case requirements of JList l \<Rightarrow> list_all is_str l | _ \<Rightarrow> False))"

fun the_list :: "json \<Rightarrow> json list" where
  "the_list (JList l) = l"
| "the_list v = []"

definition req_strings :: "json \<Rightarrow> string list" where
  "req_strings requirements = map the_str (the_list requirements)"

text \<open>
  The deductions that the decoded reply of the model carries (the empty list when the
  call failed, the reply was not decoded to a dictionary, or its \<^verbatim>\<open>deductions\<close> value
  is not a list).
\<close>

fun reply_deductions :: "json \<Rightarrow> json list" where
  "reply_deductions (JDict d) = (case dget d ''deductions'' of JList l \<Rightarrow> l | _ \<Rightarrow> [])"
| "reply_deductions v = []"

definition llm_deductions_of :: "env \<Rightarrow> json list" where
  "llm_deductions_of E =
     (case generated E of
        Inl e \<Rightarrow> []
      | Inr response_text \<Rightarrow> reply_deductions (parse_llm_json E response_text))"

text \<open>
  Quizzes: the value under \<^verbatim>\<open>questions\<close> is a list, a question carries a usable type
  tag, the supplied answer is an integer equal to \<^verbatim>\<open>correct_index\<close>, and the answers to
  an essay question that hold no text: the empty string, a string of white space and
  \<^verbatim>\<open>None\<close>, which also stands for a missing answer.
\<close>

definition is_list :: "json \<Rightarrow> bool" where
  "is_list v = (case v of JList l \<Rightarrow> True | _ \<Rightarrow> False)"

definition well_formed_quiz :: "json \<Rightarrow> bool" where
  "well_formed_quiz quiz =
     (case quiz of JDict d \<Rightarrow> is_list (dget_default d ''questions'' (JList [])) | _ \<Rightarrow> False)"

definition questions_of :: "json \<Rightarrow> json list" where
  "questions_of quiz = (case quiz of JDict d \<Rightarrow> the_list (dget_default d ''questions'' (JList [])) | _ \<Rightarrow> [])"


definition answer_matches :: "json \<Rightarrow> json \<Rightarrow> bool" where
  "answer_matches a ci = (is_int_instance a \<and> int_equals a ci)"


section \<open>Sample inputs\<close>

text \<open>
  An environment in which every request fails, and variants of it: embeddings of different
  lengths, embeddings of equal length, a reply whose deductions exceed the lost points, and
  a well-formed reply while the embedding requests fail.
\<close>

definition offline_env :: env where
  "offline_env =
     \<lparr> embed_essay = Inl (Exc (OtherError ''URLError'') ''<urlopen error [Errno 111] Connection refused>''),
       embed_ideal = Inl (Exc (OtherError ''URLError'') ''<urlopen error [Errno 111] Connection refused>''),
       generated = Inl (Exc (OtherError ''URLError'') ''<urlopen error [Errno 111] Connection refused>''),
       json_loads = (\<lambda>s. None),
       json_dumps = (\<lambda>v. []),
       int_of_str = (\<lambda>s. None),
       repr = (\<lambda>v. []) \<rparr>"

definition offline :: "nat \<Rightarrow> env" where
  "offline i = offline_env"



definition overdeduct_env :: env where
  "overdeduct_env = offline_env
     \<lparr> generated := Inr ''{grade: 20, deductions: [{reason: Off topic, points: 90}]}'',
       json_loads := (\<lambda>s. Some (JDict [(''grade'', JInt 20),
          (''deductions'', JList [JDict [(''reason'', JStr ''Off topic''), (''points'', JInt 90)]])])) \<rparr>"


definition model_name :: string where
  "model_name = ''qwen2.5:14b-instruct''"

definition sample_essay :: json where
  "sample_essay = JStr ''Photosynthesis makes sugar. Plants need water.''"

definition sample_requirements :: json where
  "sample_requirements = JList [JStr ''Photosynthesis mentioned'', JStr '' Respiration mentioned '', JStr ''  '']"



definition cov_three :: "json list" where
  "cov_three = [coverage_item ''states that oxygen is produced'' True ''...glucose and oxygen.'',
                coverage_item ''mentions the role of chlorophyll'' False [],
                coverage_item ''mentions respiration'' False []]"

definition choice_question :: "(string \<times> json) list" where
  "choice_question =
     [(''type'', JStr ''mc''), (''text'', JStr ''Which gas do plants release?''),
      (''options'', JList [JStr ''Nitrogen'', JStr ''Oxygen'']),
      (''correct_index'', JInt 1), (''points'', JInt 2)]"

definition untyped_question :: "(string \<times> json) list" where
  "untyped_question =
     [(''text'', JStr ''Which pigment absorbs light?''),
      (''options'', JList [JStr ''Chlorophyll'', JStr ''Keratin'']),
      (''correct_index'', JInt 0)]"


definition choice_quiz :: json where
  "choice_quiz = JDict [(''id'', JStr ''q1''),
                        (''questions'', JList [JDict choice_question, JDict untyped_question])]"


section \<open>Rounding and the coverage-to-grade mapping\<close>

lemma py_round_cases: "py_round x = \<lfloor>x\<rfloor> \<or> py_round x = \<lfloor>x\<rfloor> + 1"
  by (simp add: py_round_def Let_def)

lemma py_round_of_int: "py_round (of_int n) = n"
  by (simp add: py_round_def Let_def)

lemma py_round_bounds:
  assumes "0 \<le> x" "x \<le> of_int m"
  shows "0 \<le> py_round x \<and> py_round x \<le> m"
proof (cases "x = of_int m")
  case True
  with assms show ?thesis by (simp add: py_round_of_int)
next
  case False
  with assms have "x < of_int m" by simp
  then have "\<lfloor>x\<rfloor> < m" by (simp add: floor_less_iff)
  moreover from assms have "0 \<le> \<lfloor>x\<rfloor>" by simp
  ultimately show ?thesis using py_round_cases [of x] by auto
qed

lemma count_addressed_dicts:
  "list_all is_dict cov \<Longrightarrow> count_addressed cov = Inr (length (filter addressed_of cov))"
proof (induction cov)
  case Nil
  then show ?case by simp
next
  case (Cons c cs)
  then obtain d where "c = JDict d" by (cases c) auto
  with Cons show ?case by (simp add: get_def dget_def)
qed




section \<open>Synthesized deductions\<close>

lemma missed_items_dicts:
  "list_all is_dict cov \<Longrightarrow> missed_items cov = Inr (missed_of cov)"
proof (induction cov)
  case Nil
  then show ?case by (simp add: missed_of_def)
next
  case (Cons c cs)
  then obtain d where "c = JDict d" by (cases c) auto
  with Cons show ?case by (simp add: missed_of_def)
qed

lemma missing_loop_length: "length (missing_loop E b r i ms) = length ms"
  by (induction ms arbitrary: i) simp_all

lemma missing_loop_nth:
  "k < length ms \<Longrightarrow>
   missing_loop E b r i ms ! k = missing_requirement E (ms ! k) (b + (if int (i + k) < r then 1 else 0))"
proof (induction ms arbitrary: i k)
  case Nil
  then show ?case by simp
next
  case (Cons c cs)
  show ?case
  proof (cases k)
    case 0
    then show ?thesis by simp
  next
    case (Suc j)
    with Cons.prems have "j < length cs" by simp
    from Cons.IH [OF this, of "Suc i"] Suc show ?thesis by simp
  qed
qed

lemma points_missing_requirement: "points (missing_requirement E c p) = p"
  by (simp add: missing_requirement_def)

lemma sum_points_missing_loop:
  "sum_points (missing_loop E b r i ms) =
     b * int (length ms) + max 0 (min r (int i + int (length ms)) - int i)"
proof (induction ms arbitrary: i)
  case Nil
  then show ?case by (simp add: sum_points_def)
next
  case (Cons c cs)
  have "sum_points (missing_loop E b r i (c # cs)) =
          (b + (if int i < r then 1 else 0)) + sum_points (missing_loop E b r (Suc i) cs)"
    by (simp add: sum_points_def points_missing_requirement)
  also have "\<dots> = (b + (if int i < r then 1 else 0))
                 + (b * int (length cs) + max 0 (min r (int (Suc i) + int (length cs)) - int (Suc i)))"
    by (simp only: Cons.IH)
  also have "\<dots> = b * int (length (c # cs)) + max 0 (min r (int i + int (length (c # cs))) - int i)"
    by (auto simp: algebra_simps min_def max_def)
  finally show ?case .
qed

lemma synth_split:
  assumes "0 < m" "0 < n"
  shows "(m div n) * n + max 0 (min (m - (m div n) * n) (0 + n) - 0) = (m::int)"
proof -
  have "m - (m div n) * n = m mod n" by (simp add: minus_div_mult_eq_mod)
  moreover have "0 \<le> m mod n" "m mod n < n" using assms by simp_all
  ultimately show ?thesis by (simp add: min_def max_def)
qed

lemma synthesize_sum:
  assumes "synthesize_deductions E g mp cov = Inr (ds, t)" "g \<le> mp"
  shows "t = mp - g \<and> sum_points ds = mp - g"
proof (cases "mp - g = 0")
  case True
  with assms show ?thesis by (simp add: synthesize_deductions_def sum_points_def)
next
  case False
  with assms have pos: "0 < mp - g" by simp
  then have mx: "max 0 (mp - g) = mp - g" by simp
  from assms False mx obtain ms where ms: "missed_items cov = Inr ms"
    by (auto simp: synthesize_deductions_def Let_def split: sum.splits)
  show ?thesis
  proof (cases "ms = []")
    case True
    with assms False mx ms show ?thesis
      by (auto simp: synthesize_deductions_def sum_points_def partial_coverage_def Let_def)
  next
    case False
    then have n: "0 < int (length ms)" by simp
    from assms mx ms False \<open>mp - g \<noteq> 0\<close>
    have ds: "ds = missing_loop E ((mp - g) div int (length ms))
                ((mp - g) - (mp - g) div int (length ms) * int (length ms)) 0 ms"
      and t: "t = mp - g"
      by (auto simp: synthesize_deductions_def Let_def)
    have "sum_points ds = mp - g"
      unfolding ds sum_points_missing_loop using synth_split [OF pos n] by simp
    with t show ?thesis by simp
  qed
qed

lemma synthesize_dicts:
  assumes "list_all is_dict cov"
  shows "\<exists>ds t. synthesize_deductions E g mp cov = Inr (ds, t)"
  using missed_items_dicts [OF assms]
  by (simp add: synthesize_deductions_def Let_def)

text \<open>
  C7. For \<open>0 \<le> grade \<le> max_points\<close> and a list of coverage items,
  \<^verbatim>\<open>_synthesize_deductions\<close> returns the total \<open>max_points - grade\<close> and
  \<^item> the empty list when \<open>max_points - grade = 0\<close>;
  \<^item> otherwise, when \<open>n > 0\<close> items are not addressed, one deduction per such item in the
    original order, with \<open>\<lfloor>missing / n\<rfloor>\<close> points and one more point for the first
    \<open>missing mod n\<close> of them, tagged \<^verbatim>\<open>missing_requirement\<close>, with the item's requirement
    and evidence copied;
  \<^item> otherwise a single \<^verbatim>\<open>partial_coverage\<close> deduction that carries all missing points.
\<close>

theorem synthesize_deductions_spec:
  assumes "0 \<le> g" and "g \<le> mp" and "list_all is_dict cov"
  shows "\<exists>ds. synthesize_deductions E g mp cov = Inr (ds, mp - g) \<and>
     (mp - g = 0 \<longrightarrow> ds = []) \<and>
     (mp - g \<noteq> 0 \<and> missed_of cov \<noteq> [] \<longrightarrow>
        length ds = length (missed_of cov) \<and>
        (\<forall>i < length (missed_of cov).
           points (ds ! i) = (mp - g) div int (length (missed_of cov))
              + (if int i < (mp - g) mod int (length (missed_of cov)) then 1 else 0) \<and>
           category (ds ! i) = Some (JStr ''missing_requirement'') \<and>
           requirement (ds ! i) = Some (dget (missed_of cov ! i) ''requirement'') \<and>
           evidence (ds ! i) = Some (dget (missed_of cov ! i) ''evidence''))) \<and>
     (mp - g \<noteq> 0 \<and> missed_of cov = [] \<longrightarrow>
        length ds = 1 \<and> points (ds ! 0) = mp - g \<and>
        category (ds ! 0) = Some (JStr ''partial_coverage'') \<and>
        requirement (ds ! 0) = None \<and> evidence (ds ! 0) = None)"
proof -
  let ?ms = "missed_of cov"
  let ?n = "int (length ?ms)"
  have mi: "missed_items cov = Inr ?ms" using assms(3) by (rule missed_items_dicts)
  have mx: "max 0 (mp - g) = mp - g" using assms(2) by simp
  show ?thesis
  proof (cases "mp - g = 0")
    case True
    then show ?thesis by (simp add: synthesize_deductions_def)
  next
    case False
    note nz = this
    show ?thesis
    proof (cases "?ms = []")
      case True
      with nz mi mx show ?thesis
        by (simp add: synthesize_deductions_def Let_def partial_coverage_def)
    next
      case False
      let ?ds = "missing_loop E ((mp - g) div ?n) ((mp - g) - (mp - g) div ?n * ?n) 0 ?ms"
      have r: "(mp - g) - (mp - g) div ?n * ?n = (mp - g) mod ?n"
        by (simp add: minus_div_mult_eq_mod)
      have eq: "synthesize_deductions E g mp cov = Inr (?ds, mp - g)"
        using nz mi mx False by (simp add: synthesize_deductions_def Let_def)
      have each: "\<forall>i < length ?ms.
           points (?ds ! i) = (mp - g) div ?n + (if int i < (mp - g) mod ?n then 1 else 0) \<and>
           category (?ds ! i) = Some (JStr ''missing_requirement'') \<and>
           requirement (?ds ! i) = Some (dget (?ms ! i) ''requirement'') \<and>
           evidence (?ds ! i) = Some (dget (?ms ! i) ''evidence'')"
        by (simp add: missing_loop_nth r missing_requirement_def)
      from eq each nz False show ?thesis
        by (simp add: missing_loop_length)
    qed
  qed
qed

text \<open>
  Seven missing points on two unaddressed items: 4 and 3.
\<close>

theorem synthesize_deductions_spec_witness:
  "(0::int) \<le> 3 \<and> (3::int) \<le> 10 \<and> list_all is_dict cov_three \<and>
   map points (fst (projr (synthesize_deductions offline_env 3 10 cov_three))) = [4, 3] \<and>
   map requirement (fst (projr (synthesize_deductions offline_env 3 10 cov_three)))
     = [Some (JStr ''mentions the role of chlorophyll''), Some (JStr ''mentions respiration'')] \<and>
   snd (projr (synthesize_deductions offline_env 3 10 cov_three)) = 7"
proof -
  have h1: "(0::int) \<le> 3" and h2: "(3::int) \<le> 10" by simp_all
  have h3: "list_all is_dict cov_three" by (simp add: cov_three_def coverage_item_def)
  have ms: "missed_of cov_three =
      [[(''requirement'', JStr ''mentions the role of chlorophyll''), (''addressed'', JBool False), (''evidence'', JStr [])],
       [(''requirement'', JStr ''mentions respiration''), (''addressed'', JBool False), (''evidence'', JStr [])]]"
    by (simp add: missed_of_def cov_three_def coverage_item_def dget_def)
  from synthesize_deductions_spec [OF h1 h2 h3, of offline_env]
  obtain ds where eq: "synthesize_deductions offline_env 3 10 cov_three = Inr (ds, 10 - 3)"
    and len: "length ds = length (missed_of cov_three)"
    and each: "\<forall>i < length (missed_of cov_three).
           points (ds ! i) = (10 - 3) div int (length (missed_of cov_three))
              + (if int i < (10 - 3) mod int (length (missed_of cov_three)) then 1 else 0) \<and>
           category (ds ! i) = Some (JStr ''missing_requirement'') \<and>
           requirement (ds ! i) = Some (dget (missed_of cov_three ! i) ''requirement'') \<and>
           evidence (ds ! i) = Some (dget (missed_of cov_three ! i) ''evidence'')"
    unfolding ms by auto
  from len ms obtain a b where ds: "ds = [a, b]"
    by (cases ds; cases "tl ds") auto
  from each [rule_format, of 0] each [rule_format, of 1] ms ds
  have "points a = 4" "points b = 3"
       "requirement a = Some (JStr ''mentions the role of chlorophyll'')"
       "requirement b = Some (JStr ''mentions respiration'')"
    by (simp_all add: dget_def)
  with eq ds h1 h2 h3 show ?thesis by simp
qed

section \<open>Semantic similarity\<close>





section \<open>The coverage analyzer\<close>

subsection \<open>The tokenizer\<close>








subsection \<open>Whole-word search\<close>








subsection \<open>Coverage items\<close>





lemma coverage_loop_dicts: "list_all is_dict (coverage_loop essay_lc reqs)"
  by (induction reqs) (simp_all add: Let_def coverage_item_def split: prod.splits)

lemma heuristic_coverage_dicts: "list_all is_dict (heuristic_coverage essay reqs)"
  by (simp add: heuristic_coverage_def coverage_loop_dicts)


lemma sample_valid: "valid_input sample_essay sample_requirements" by code_simp






section \<open>The orchestrator\<close>

lemma coverage_to_grade_range:
  assumes "list_all is_dict cov" "0 \<le> mp"
  shows "\<exists>g. coverage_to_grade cov mp = Inr g \<and> 0 \<le> g \<and> g \<le> mp"
proof (cases "cov = []")
  case True
  with assms show ?thesis by (simp add: coverage_to_grade_def)
next
  case False
  let ?x = "real (length (filter addressed_of cov)) / real (length cov) * of_int mp"
  let ?y = "min (of_int mp) (max 0 ?x)"
  have "0 \<le> ?y" "?y \<le> of_int mp" using assms(2) by simp_all
  then have "0 \<le> py_round ?y \<and> py_round ?y \<le> mp" by (rule py_round_bounds)
  moreover have "coverage_to_grade cov mp = Inr (py_round ?y)"
    using False count_addressed_dicts [OF assms(1)] by (simp add: coverage_to_grade_def Let_def)
  ultimately show ?thesis by blast
qed


lemma heuristic_grading:
  assumes "0 \<le> mp"
  shows "\<exists>g ds. coverage_to_grade (heuristic_coverage essay reqs) mp = Inr g \<and> 0 \<le> g \<and> g \<le> mp \<and>
           synthesize_deductions E g mp (heuristic_coverage essay reqs) = Inr (ds, mp - g) \<and>
           sum_points ds = mp - g"
proof -
  let ?cov = "heuristic_coverage essay reqs"
  from coverage_to_grade_range [OF heuristic_coverage_dicts assms]
  obtain g where g: "coverage_to_grade ?cov mp = Inr g" "0 \<le> g" "g \<le> mp" by blast
  from synthesize_dicts [OF heuristic_coverage_dicts]
  obtain ds t where s: "synthesize_deductions E g mp ?cov = Inr (ds, t)" by blast
  from synthesize_sum [OF s g(3)] g s show ?thesis by auto
qed

lemma fallback_result_total:
  assumes "0 \<le> mp"
  shows "\<exists>r. fallback_result E essay reqs mp e = Inr r \<and>
           backend r = ''fallback'' \<and> model_used r = None \<and>
           coverage_to_grade (heuristic_coverage essay reqs) mp = Inr (grade r) \<and>
           synthesize_deductions E (grade r) mp (heuristic_coverage essay reqs)
             = Inr (deductions r, total_deductions r) \<and>
           reasons r = [''Local model unavailable or call failed; applied heuristic grading.'',
                        ''Reason: '' @ exc_name (kind_of e) @ '': '' @ message_of e] \<and>
           coverage r = heuristic_coverage essay reqs \<and> max_points r = mp \<and>
           0 \<le> grade r \<and> grade r \<le> mp \<and> total_deductions r = mp - grade r \<and>
           sum_points (deductions r) = mp - grade r"
proof -
  from heuristic_grading [OF assms, of essay reqs E]
  obtain g ds where "coverage_to_grade (heuristic_coverage essay reqs) mp = Inr g" "0 \<le> g" "g \<le> mp"
    "synthesize_deductions E g mp (heuristic_coverage essay reqs) = Inr (ds, mp - g)"
    "sum_points ds = mp - g" by blast
  then show ?thesis by (simp add: fallback_result_def)
qed


lemma unparsed_result_total:
  assumes "0 \<le> mp"
  shows "\<exists>r. unparsed_result E model essay reqs mp sim resp = Inr r \<and>
           backend r = ''ollama'' \<and> max_points r = mp \<and>
           0 \<le> grade r \<and> grade r \<le> mp \<and> total_deductions r = mp - grade r \<and>
           sum_points (deductions r) = mp - grade r"
proof -
  from heuristic_grading [OF assms, of essay reqs E]
  obtain g ds where "coverage_to_grade (heuristic_coverage essay reqs) mp = Inr g" "0 \<le> g" "g \<le> mp"
    "synthesize_deductions E g mp (heuristic_coverage essay reqs) = Inr (ds, mp - g)"
    "sum_points ds = mp - g" by blast
  then show ?thesis by (simp add: unparsed_result_def)
qed

lemma sum_points_append: "sum_points (xs @ ys) = sum_points xs + sum_points ys"
  by (simp add: sum_points_def)

lemma reconcile_sum:
  "reconcile E g mp l = (ds, t) \<Longrightarrow>
     t = mp - g \<and> sum_points ds = max (mp - g) (sum_points (normalize_deductions E l))"
  by (auto simp: reconcile_def Let_def sum_points_append reconciliation_def sum_points_def
           split: if_splits)

lemma parsed_result_props:
  assumes "parsed_result E model essay reqs mp sim parsed = Inr r" "0 \<le> mp"
  shows "backend r = ''ollama'' \<and> max_points r = mp \<and>
         0 \<le> grade r \<and> grade r \<le> mp \<and> total_deductions r = mp - grade r \<and>
         sum_points (deductions r) =
           (if reply_deductions parsed \<noteq> []
            then max (mp - grade r) (sum_points (normalize_deductions E (reply_deductions parsed)))
            else mp - grade r)"
proof -
  from assms(1) obtain d where d: "parsed = JDict d" by (cases parsed) auto
  from assms(1) d obtain gi where gi: "py_int E (dget_default d ''grade'' (JInt 0)) = Inr gi"
    by (auto split: sum.splits)
  let ?g = "max 0 (min mp gi)"
  have gr: "0 \<le> ?g" "?g \<le> mp" using assms(2) by simp_all
  let ?cov0 = "py_or (dget d ''coverage'') (JList [])"
  let ?cov = "(case ?cov0 of
                 JList l \<Rightarrow> if l = [] then heuristic_coverage essay reqs else l
               | _ \<Rightarrow> heuristic_coverage essay reqs)"
  let ?dd = "(case dget d ''deductions'' of
                JList l \<Rightarrow> if l \<noteq> [] then Inr (reconcile E ?g mp l)
                           else synthesize_deductions E ?g mp ?cov
              | _ \<Rightarrow> synthesize_deductions E ?g mp ?cov)"
  from assms(1) d gi obtain ds t where dd: "?dd = Inr (ds, t)"
    by (auto simp: Let_def split: sum.splits prod.splits)
  from assms(1) d gi dd have r: "grade r = ?g" "deductions r = ds" "total_deductions r = t"
      "backend r = ''ollama''" "max_points r = mp"
    by (auto simp: Let_def split: sum.splits prod.splits)
  have "t = mp - ?g \<and> sum_points ds =
           (if reply_deductions parsed \<noteq> []
            then max (mp - ?g) (sum_points (normalize_deductions E (reply_deductions parsed)))
            else mp - ?g)"
  proof (cases "reply_deductions parsed = []")
    case True
    with d dd have "synthesize_deductions E ?g mp ?cov = Inr (ds, t)"
      by (auto split: json.splits if_splits)
    from synthesize_sum [OF this gr(2)] True show ?thesis by simp
  next
    case False
    with d obtain l where l: "dget d ''deductions'' = JList l" "l \<noteq> []"
      by (auto split: json.splits)
    with dd have "reconcile E ?g mp l = (ds, t)" by simp
    from reconcile_sum [OF this] l d show ?thesis by simp
  qed
  with r gr show ?thesis by simp
qed

lemma model_path_raises: "generated E = Inl e \<Longrightarrow> model_path E model essay reqs mp = Inl e"
  by (simp add: model_path_def)

lemma model_path_returns:
  "generated E = Inr resp \<Longrightarrow>
   model_path E model essay reqs mp =
     (if parse_llm_json E resp = JNull
      then unparsed_result E model essay reqs mp (compute_semantic_score E) resp
      else parsed_result E model essay reqs mp (compute_semantic_score E) (parse_llm_json E resp))"
  by (simp add: model_path_def Let_def)

lemma model_path_props:
  assumes "model_path E model essay reqs mp = Inr r" "0 \<le> mp"
  shows "backend r = ''ollama'' \<and> max_points r = mp \<and>
         0 \<le> grade r \<and> grade r \<le> mp \<and> total_deductions r = mp - grade r \<and>
         sum_points (deductions r) =
           (if llm_deductions_of E \<noteq> []
            then max (mp - grade r) (sum_points (normalize_deductions E (llm_deductions_of E)))
            else mp - grade r)"
proof -
  from assms(1) obtain resp where resp: "generated E = Inr resp"
    by (cases "generated E") (simp_all add: model_path_raises)
  let ?p = "parse_llm_json E resp"
  have l: "llm_deductions_of E = reply_deductions ?p" using resp by (simp add: llm_deductions_of_def)
  show ?thesis
  proof (cases "?p = JNull")
    case True
    with assms(1) resp
    have u: "unparsed_result E model essay reqs mp (compute_semantic_score E) resp = Inr r"
      by (simp add: model_path_returns)
    from unparsed_result_total [OF assms(2), of E model essay reqs "compute_semantic_score E" resp] u
      l True show ?thesis by simp
  next
    case False
    with assms(1) resp
    have "parsed_result E model essay reqs mp (compute_semantic_score E) ?p = Inr r"
      by (simp add: model_path_returns)
    from parsed_result_props [OF this assms(2)] l show ?thesis by simp
  qed
qed

lemma grade_essay_valid:
  "valid_input essay rq \<Longrightarrow>
   grade_essay E model essay rq mp =
     (case model_path E model (the_str essay) (req_strings rq) mp of
        Inr r \<Rightarrow> Inr r
      | Inl e \<Rightarrow> fallback_result E (the_str essay) (req_strings rq) mp e)"
  by (cases rq) (auto simp: valid_input_def grade_essay_def req_strings_def split: sum.splits)

lemma grade_essay_invalid:
  "\<not> valid_input essay rq \<Longrightarrow> \<exists>msg. grade_essay E model essay rq mp = Inl (Exc ValueError msg)"
  by (cases rq) (auto simp: valid_input_def grade_essay_def)



subsection \<open>Sample runs\<close>







lemma overdeduct_generated:
  "generated overdeduct_env = Inr ''{grade: 20, deductions: [{reason: Off topic, points: 90}]}''"
  by (simp add: overdeduct_env_def offline_env_def)

lemma overdeduct_parse:
  "parse_llm_json overdeduct_env ''{grade: 20, deductions: [{reason: Off topic, points: 90}]}'' =
     JDict [(''grade'', JInt 20),
            (''deductions'', JList [JDict [(''reason'', JStr ''Off topic''), (''points'', JInt 90)]])]"
  by (simp add: parse_llm_json_def overdeduct_env_def offline_env_def)

lemma overdeduct_result:
  "grade_essay overdeduct_env model_name sample_essay (JList []) 100 =
     Inr \<lparr> grade = 20,
           reasons = [''Model did not provide reasons.''],
           coverage = [],
           backend = ''ollama'',
           model_used = Some model_name,
           raw_response = Some [],
           semantic_similarity = None,
           domain_analysis = JNull,
           max_points = 100,
           deductions = [\<lparr> reason = ''Off topic'', points = 90, requirement = None,
                            evidence = None, category = None \<rparr>,
                         reconciliation overdeduct_env 90 80],
           total_deductions = 80 \<rparr>"
proof -
  have v: "valid_input sample_essay (JList [])"
    using sample_valid by (simp add: valid_input_def)
  have hc: "heuristic_coverage s [] = []" for s
    by (simp add: heuristic_coverage_def)
  have sim: "compute_semantic_score overdeduct_env = None"
    by (simp add: compute_semantic_score_def overdeduct_env_def offline_env_def)
  have dumps: "json_dumps overdeduct_env v = []" for v
    by (simp add: overdeduct_env_def offline_env_def)
  show ?thesis
    by (simp add: grade_essay_valid [OF v] model_path_returns [OF overdeduct_generated]
          overdeduct_parse req_strings_def dget_def py_or_def hc reasons_list_def
          reconcile_def sum_points_def pass_through_def sim dumps)
qed

subsection \<open>The grade is in range\<close>



subsection \<open>The only exception is the one for invalid arguments\<close>




subsection \<open>The fallback\<close>




subsection \<open>Deductions and the grade\<close>

text \<open>
  C1, as the code has it. For \<open>max_points \<ge> 0\<close>, every result of \<^verbatim>\<open>grade_essay\<close> has
  \<open>total_deductions = max_points - grade\<close>. The points of its deductions sum to
  \<open>max_points - grade\<close> on every path but one: when the reply of the model carries a
  non-empty list of deductions, the sum is the larger of \<open>max_points - grade\<close> and the sum of
  the normalised points, since the reconciliation entry holds
  \<^verbatim>\<open>max(0, expected - total_ded)\<close> points.
\<close>

theorem grade_essay_deductions:
  assumes "grade_essay E model essay rq mp = Inr r" and "0 \<le> mp"
  shows "total_deductions r = mp - grade r \<and>
         sum_points (deductions r) =
           (if backend r = ''ollama'' \<and> llm_deductions_of E \<noteq> []
            then max (mp - grade r) (sum_points (normalize_deductions E (llm_deductions_of E)))
            else mp - grade r)"
proof -
  have v: "valid_input essay rq"
    using assms(1) grade_essay_invalid [of essay rq E model mp] by auto
  show ?thesis
  proof (cases "model_path E model (the_str essay) (req_strings rq) mp")
    case (Inl e)
    with grade_essay_valid [OF v, of E model mp] assms(1)
    have "fallback_result E (the_str essay) (req_strings rq) mp e = Inr r" by simp
    with fallback_result_total [OF assms(2), of E "the_str essay" "req_strings rq" e]
    show ?thesis by auto
  next
    case (Inr r')
    with grade_essay_valid [OF v, of E model mp] assms(1) have "r' = r" by simp
    with model_path_props [OF Inr assms(2)] show ?thesis by simp
  qed
qed

theorem grade_essay_deductions_witness:
  "\<not> isl (grade_essay overdeduct_env model_name sample_essay (JList []) 100) \<and> (0::int) \<le> 100 \<and>
   total_deductions (projr (grade_essay overdeduct_env model_name sample_essay (JList []) 100))
     = 100 - grade (projr (grade_essay overdeduct_env model_name sample_essay (JList []) 100)) \<and>
   sum_points (deductions (projr (grade_essay overdeduct_env model_name sample_essay (JList []) 100)))
     = max (100 - 20) (sum_points (normalize_deductions overdeduct_env (llm_deductions_of overdeduct_env)))"
proof -
  have h2: "(0::int) \<le> 100" by simp
  have l: "llm_deductions_of overdeduct_env = [JDict [(''reason'', JStr ''Off topic''), (''points'', JInt 90)]]"
    by (simp add: llm_deductions_of_def overdeduct_generated overdeduct_parse dget_def)
  from grade_essay_deductions [OF overdeduct_result h2] l
  show ?thesis by (simp add: overdeduct_result)
qed

text \<open>
  A reply with the grade 20 of 100 and one deduction of 90 points: the points sum to 90,
  \<open>max_points - grade\<close> and \<open>total_deductions\<close> are 80.
\<close>

theorem grade_essay_overdeduction:
  "grade (projr (grade_essay overdeduct_env model_name sample_essay (JList []) 100)) = 20 \<and>
   max_points (projr (grade_essay overdeduct_env model_name sample_essay (JList []) 100)) = 100 \<and>
   map points (deductions (projr (grade_essay overdeduct_env model_name sample_essay (JList []) 100))) = [90, 0] \<and>
   sum_points (deductions (projr (grade_essay overdeduct_env model_name sample_essay (JList []) 100))) = 90 \<and>
   total_deductions (projr (grade_essay overdeduct_env model_name sample_essay (JList []) 100)) = 80"
  by (simp add: overdeduct_result sum_points_def reconciliation_def)

section \<open>The quiz aggregator\<close>


lemma question_type_values: "question_type q = Inr t \<Longrightarrow> t = ''essay'' \<or> t = ''mc''"
  by (auto simp: question_type_def split: sum.splits json.splits if_splits)

lemma grade_question_mc:
  "question_type (JDict d) = Inr t \<Longrightarrow> t \<noteq> ''essay'' \<Longrightarrow>
   grade_question E model (JDict d) a = Inr (mc_question E d a)"
  by (simp add: grade_question_def)






lemma quiz_loop_nth:
  "quiz_loop envs model answers i qs = Inr pqs \<Longrightarrow> k < length qs \<Longrightarrow>
     length pqs = length qs \<and>
     grade_question (envs (i + k)) model (qs ! k) (answer_at answers (i + k)) = Inr (pqs ! k)"
proof (induction qs arbitrary: i k pqs)
  case Nil
  then show ?case by simp
next
  case (Cons q qs)
  from Cons.prems(1) obtain pq rest where
    pq: "grade_question (envs i) model q (answer_at answers i) = Inr pq"
    and rest: "quiz_loop envs model answers (Suc i) qs = Inr rest"
    and pqs: "pqs = pq # rest"
    by (auto split: sum.splits)
  show ?case
  proof (cases k)
    case 0
    with pq pqs rest Cons.IH [OF rest] show ?thesis
      by (cases qs) (auto split: sum.splits)
  next
    case (Suc j)
    with Cons.prems(2) have "j < length qs" by simp
    from Cons.IH [OF rest this] Suc pqs show ?thesis by simp
  qed
qed

lemma grade_quiz_well_formed:
  "well_formed_quiz quiz \<Longrightarrow>
   grade_quiz envs model quiz answers =
     (case quiz_loop envs model answers 0 (questions_of quiz) of
        Inl e \<Rightarrow> Inl e
      | Inr pqs \<Rightarrow>
          Inr \<lparr> score = sum_list (map awarded pqs),
                total = sum_list (map max_pts pqs),
                percent =
                  (if sum_list (map max_pts pqs) \<noteq> 0
                   then of_int (py_round (of_int (sum_list (map awarded pqs))
                                  / of_int (sum_list (map max_pts pqs)) * 100 * 100)) / 100
                   else 0),
                per_question = pqs \<rparr>)"
  by (auto simp: well_formed_quiz_def questions_of_def grade_quiz_def is_list_def Let_def
           split: json.splits sum.splits)

subsection \<open>Sample quizzes\<close>

lemma choice_question_type: "question_type (JDict choice_question) = Inr ''mc''"
  by code_simp

lemma untyped_question_type: "question_type (JDict untyped_question) = Inr ''mc''"
  by code_simp


lemma choice_quiz_questions: "questions_of choice_quiz = [JDict choice_question, JDict untyped_question]"
  by (simp add: questions_of_def choice_quiz_def)


lemma choice_quiz_well_formed: "well_formed_quiz choice_quiz"
  by (simp add: well_formed_quiz_def choice_quiz_def is_list_def)


lemma choice_quiz_result:
  "grade_quiz offline model_name choice_quiz [JInt 1] =
     Inr \<lparr> score = 2, total = 3, percent = 6667 / 100,
           per_question =
             [mc_question offline_env choice_question (JInt 1),
              mc_question offline_env untyped_question JNull] \<rparr>"
proof -
  have a: "awarded (mc_question offline_env choice_question (JInt 1)) = 2"
          "max_pts (mc_question offline_env choice_question (JInt 1)) = 2"
          "awarded (mc_question offline_env untyped_question JNull) = 0"
          "max_pts (mc_question offline_env untyped_question JNull) = 1"
    by (simp_all add: mc_question_def points_for_mc_def choice_question_def untyped_question_def
          dget_def int_equals_def Let_def)
  have r: "py_round (20000 / 3) = 6667" by (simp add: py_round_def)
  show ?thesis
    by (simp add: grade_quiz_well_formed [OF choice_quiz_well_formed] choice_quiz_questions
          grade_question_mc [OF choice_question_type] grade_question_mc [OF untyped_question_type]
          answer_at_def offline_def a r)
qed

subsection \<open>Multiple-choice questions\<close>

text \<open>
  C9. In the result of \<^verbatim>\<open>grade_quiz\<close>, a multiple-choice question with points other
  than 0 is awarded its points if and only if the supplied answer is an integer equal to
  \<^verbatim>\<open>correct_index\<close>; otherwise it is awarded 0, in particular when the answer is missing
  or is not an integer. An integer is what \<^verbatim>\<open>isinstance(a, int)\<close> accepts, and equality
  is Python's \<^verbatim>\<open>==\<close> on numbers.
\<close>

theorem grade_quiz_choice:
  assumes "grade_quiz envs model quiz answers = Inr res" and "well_formed_quiz quiz"
    and "k < length (questions_of quiz)" and "questions_of quiz ! k = JDict d"
    and "question_type (JDict d) = Inr ''mc''"
    and "points_for_mc (envs k) d \<noteq> 0"
  shows "(awarded (per_question res ! k) = points_for_mc (envs k) d
            \<longleftrightarrow> answer_matches (answer_at answers k) (dget d ''correct_index'')) \<and>
         (\<not> answer_matches (answer_at answers k) (dget d ''correct_index'')
            \<longrightarrow> awarded (per_question res ! k) = 0) \<and>
         (\<not> is_int_instance (answer_at answers k) \<longrightarrow> awarded (per_question res ! k) = 0)"
proof -
  from assms(1) grade_quiz_well_formed [OF assms(2), of envs model answers]
  have loop: "quiz_loop envs model answers 0 (questions_of quiz) = Inr (per_question res)"
    by (auto split: sum.splits)
  from quiz_loop_nth [OF loop assms(3)] assms(4)
  have "grade_question (envs k) model (JDict d) (answer_at answers k) = Inr (per_question res ! k)"
    by simp
  with assms(5) have "per_question res ! k = mc_question (envs k) d (answer_at answers k)"
    by (simp add: grade_question_mc)
  then have "awarded (per_question res ! k) =
      (if answer_matches (answer_at answers k) (dget d ''correct_index'')
       then points_for_mc (envs k) d else 0)"
    by (cases "answer_at answers k") (simp_all add: mc_question_def Let_def answer_matches_def)
  with assms(6) show ?thesis by (auto simp: answer_matches_def)
qed

theorem grade_quiz_choice_witness:
  "\<not> isl (grade_quiz offline model_name choice_quiz [JInt 1]) \<and> well_formed_quiz choice_quiz \<and>
   questions_of choice_quiz = [JDict choice_question, JDict untyped_question] \<and>
   question_type (JDict choice_question) = Inr ''mc'' \<and>
   question_type (JDict untyped_question) = Inr ''mc'' \<and>
   points_for_mc (offline 0) choice_question = 2 \<and>
   points_for_mc (offline 1) untyped_question = 1 \<and>
   answer_matches (answer_at [JInt 1] 0) (dget choice_question ''correct_index'') \<and>
   awarded (per_question (projr (grade_quiz offline model_name choice_quiz [JInt 1])) ! 0) = 2 \<and>
   answer_at [JInt 1] 1 = JNull \<and>
   awarded (per_question (projr (grade_quiz offline model_name choice_quiz [JInt 1])) ! 1) = 0"
proof -
  have p0: "points_for_mc (offline 0) choice_question = 2"
    by (simp add: points_for_mc_def choice_question_def)
  have p1: "points_for_mc (offline 1) untyped_question = 1"
    by (simp add: points_for_mc_def untyped_question_def)
  have k0: "0 < length (questions_of choice_quiz)" and k1: "1 < length (questions_of choice_quiz)"
    by (simp_all add: choice_quiz_questions)
  have q0: "questions_of choice_quiz ! 0 = JDict choice_question"
    and q1: "questions_of choice_quiz ! 1 = JDict untyped_question"
    by (simp_all add: choice_quiz_questions)
  have n0: "points_for_mc (offline 0) choice_question \<noteq> 0" using p0 by simp
  have n1: "points_for_mc (offline 1) untyped_question \<noteq> 0" using p1 by simp
  have m0: "answer_matches (answer_at [JInt 1] 0) (dget choice_question ''correct_index'')"
    by (simp add: answer_matches_def answer_at_def int_equals_def dget_def choice_question_def)
  have m1: "answer_at [JInt 1] 1 = JNull" by (simp add: answer_at_def)
  from grade_quiz_choice [OF choice_quiz_result choice_quiz_well_formed k0 q0 choice_question_type n0]
    m0 p0
  have a0: "awarded (per_question (projr (grade_quiz offline model_name choice_quiz [JInt 1])) ! 0) = 2"
    by (simp add: choice_quiz_result)
  from grade_quiz_choice [OF choice_quiz_result choice_quiz_well_formed k1 q1 untyped_question_type n1]
    m1
  have a1: "awarded (per_question (projr (grade_quiz offline model_name choice_quiz [JInt 1])) ! 1) = 0"
    by (simp add: choice_quiz_result)
  from a0 a1 m0 m1 p0 p1 choice_quiz_well_formed choice_quiz_questions choice_question_type
    untyped_question_type
  show ?thesis by (simp add: choice_quiz_result)
qed

subsection \<open>Essay questions without an answer\<close>



end
